theory Spec2Isabelle
  imports Main
begin

section \<open>JavaScript strings\<close>

text \<open>
  A JavaScript string is a sequence of UTF-16 code units; a code unit is modelled as a
  natural number. \<open>js\<close> embeds an ASCII literal of the source.
\<close>

type_synonym jsstring = "nat list"

definition js :: "string \<Rightarrow> jsstring" where
  "js s = map of_char s"

definition quoted :: "jsstring \<Rightarrow> jsstring" where
  \<comment> \<open>the text between two apostrophes (code unit 39), as the template literals write it\<close>
  "quoted s = [39] @ s @ [39]"

text \<open>
  \<open>String.prototype.toLowerCase\<close>, on the Basic Latin and Latin-1 Supplement blocks:
  \<open>A\<close>..\<open>Z\<close> and the capital letters U+00C0..U+00DE (without the multiplication sign
  U+00D7) move 32 code points up. Code units outside these two blocks are left as they are.
\<close>

definition lowerUnit :: "nat \<Rightarrow> nat" where
  "lowerUnit c =
     (if (65 \<le> c \<and> c \<le> 90) \<or> (192 \<le> c \<and> c \<le> 222 \<and> c \<noteq> 215) then c + 32 else c)"

definition toLowerCase :: "jsstring \<Rightarrow> jsstring" where
  "toLowerCase s = map lowerUnit s"

text \<open>
  \<open>String.prototype.trim\<close> removes white space and line terminators from both ends.
\<close>

definition isWhiteSpace :: "nat \<Rightarrow> bool" where
  "isWhiteSpace c =
     (c = 9 \<or> c = 10 \<or> c = 11 \<or> c = 12 \<or> c = 13 \<or> c = 32 \<or> c = 160 \<or> c = 5760
      \<or> (8192 \<le> c \<and> c \<le> 8202) \<or> c = 8232 \<or> c = 8233 \<or> c = 8239 \<or> c = 8287
      \<or> c = 12288 \<or> c = 65279)"

definition trim :: "jsstring \<Rightarrow> jsstring" where
  "trim s = rev (dropWhile isWhiteSpace (rev (dropWhile isWhiteSpace s)))"

definition startsWith :: "jsstring \<Rightarrow> jsstring \<Rightarrow> bool" where
  "startsWith s p = (take (length p) s = p)"

fun includes_js :: "jsstring \<Rightarrow> jsstring \<Rightarrow> bool" where
  "includes_js [] t = (t = [])"
| "includes_js (c # cs) t = (startsWith (c # cs) t \<or> includes_js cs t)"

text \<open>
  \<open>s.replace(/pat/g, rep)\<close> for a pattern that is a plain sequence of characters: every
  occurrence, found from left to right without overlap, is replaced.
\<close>

fun replaceAll :: "jsstring \<Rightarrow> jsstring \<Rightarrow> jsstring \<Rightarrow> jsstring" where
  "replaceAll pat rep [] = []"
| "replaceAll pat rep (c # cs) =
     (if pat \<noteq> [] \<and> take (length pat) (c # cs) = pat
      then rep @ replaceAll pat rep (drop (length pat - 1) cs)
      else c # replaceAll pat rep cs)"

section \<open>Constants and helpers\<close>

definition SUPPORTED_LANGUAGES :: "jsstring list" where
  "SUPPORTED_LANGUAGES = [js ''sv'', js ''en'']"

definition DEFAULT_LANGUAGE :: jsstring where
  "DEFAULT_LANGUAGE = js ''sv''"


record lang_validation =
  valid :: bool
  language :: jsstring
  warning :: "jsstring option"

text \<open>
  \<open>validateLanguage(language: string | undefined)\<close>. The argument is \<open>None\<close> when it is
  absent; \<open>!language\<close> also holds of the empty string.
\<close>

definition validateLanguage :: "jsstring option \<Rightarrow> lang_validation" where
  "validateLanguage arg =
     (case arg of
        None \<Rightarrow> \<lparr>valid = True, language = DEFAULT_LANGUAGE, warning = None\<rparr>
      | Some l \<Rightarrow>
          if l = [] then \<lparr>valid = True, language = DEFAULT_LANGUAGE, warning = None\<rparr>
          else
            let langLower = toLowerCase l in
            if langLower \<in> set SUPPORTED_LANGUAGES
            then \<lparr>valid = True, language = langLower, warning = None\<rparr>
            else \<lparr>valid = False, language = DEFAULT_LANGUAGE,
                  warning = Some (js ''Unsupported language '' @ quoted l @ js ''. Only ''
                    @ quoted (js ''sv'') @ js '' (Swedish) and '' @ quoted (js ''en'')
                    @ js '' (English) are supported. Defaulting to ''
                    @ quoted DEFAULT_LANGUAGE @ js ''.'')\<rparr>)"

text \<open>
  \<open>normalizeSwedish\<close>. The five regular expressions of the source file are two-character
  sequences, each starting with U+221A (8730): U+221A U+2022, U+221A U+00A7,
  U+221A U+2202, U+221A U+00A9 and U+221A U+00BA. They are what the UTF-8 bytes of
  the letters U+00E5, U+00E4, U+00F6, U+00E9 and U+00FC give when read in the Mac Roman
  encoding; the patterns below are the ones the file holds.
\<close>

definition normalizeSwedish :: "jsstring \<Rightarrow> jsstring" where
  "normalizeSwedish str =
     trim
       (replaceAll [8730, 186] (js ''u'')
         (replaceAll [8730, 169] (js ''e'')
           (replaceAll [8730, 8706] (js ''o'')
             (replaceAll [8730, 167] (js ''a'')
               (replaceAll [8730, 8226] (js ''a'')
                 (toLowerCase str))))))"

definition fuzzyMatchRegion :: "jsstring \<Rightarrow> jsstring \<Rightarrow> jsstring \<Rightarrow> bool" where
  "fuzzyMatchRegion query regionName regionCode =
     (let normalizedQuery = normalizeSwedish query;
          normalizedName = normalizeSwedish regionName;
          normalizedCode = toLowerCase regionCode
      in if normalizedName = normalizedQuery \<or> normalizedCode = normalizedQuery then True
         else if includes_js normalizedName normalizedQuery \<or> includes_js normalizedQuery normalizedName
           then True
         else if includes_js normalizedCode normalizedQuery then True
         else False)"

section \<open>Objects and selections\<close>

text \<open>
  An object is modelled as the list of its own properties in the order in which
  \<open>Object.entries\<close> and \<open>Object.keys\<close> enumerate them; the keys of an object are distinct.
  A selection is a \<open>Record<string, string[]>\<close>.
\<close>

type_synonym 'v jsobject = "(jsstring \<times> 'v) list"

type_synonym selection = "jsstring list jsobject"

text \<open>
  \<open>setProp\<close> defines a property the way an object literal and a spread do: the value of
  an existing key is replaced in place, a new key comes last.

  \<open>assignProp\<close> is the assignment \<open>target[key] = value\<close> on an object whose prototype
  chain ends in \<open>Object.prototype\<close>, for a value that is an array. The key \<open>__proto__\<close> is
  the accessor of \<open>Object.prototype\<close>: assigning it replaces the prototype of the target
  and adds no property. Every other key is defined as by \<open>setProp\<close>.

  \<open>assignAll f\<close> is the loop
  \<open>for (const [key, x] of Object.entries(source)) { target[key] = f(x) }\<close> on a fresh
  \<open>target = {}\<close>.
\<close>

fun setProp :: "jsstring \<Rightarrow> 'v \<Rightarrow> 'v jsobject \<Rightarrow> 'v jsobject" where
  "setProp k v [] = [(k, v)]"
| "setProp k v ((k', v') # fs) = (if k' = k then (k, v) # fs else (k', v') # setProp k v fs)"

definition assignProp :: "jsstring \<Rightarrow> 'v \<Rightarrow> 'v jsobject \<Rightarrow> 'v jsobject" where
  "assignProp key v target = (if key = js ''__proto__'' then target else setProp key v target)"

definition assignAll :: "('a \<Rightarrow> 'v) \<Rightarrow> 'a jsobject \<Rightarrow> 'v jsobject" where
  "assignAll f source = foldl (\<lambda>target (key, x). assignProp key (f x) target) [] source"


text \<open>
  \<open>handlePreviewData\<close>, lines 1666--1681: the limited selection built for a preview.
  \<open>isExpression\<close> is the predicate given to \<open>values.some\<close>; \<open>previewValues\<close> is the body
  of the loop for one dimension, and the loop assigns \<open>previewSelection[key]\<close> for the
  keys of \<open>selection\<close> in their own order.
\<close>

definition isExpression :: "jsstring \<Rightarrow> bool" where
  "isExpression v = (v = js ''*'' \<or> startsWith v (js ''TOP('') \<or> startsWith v (js ''BOTTOM(''))"

definition previewValues :: "jsstring list \<Rightarrow> jsstring list" where
  "previewValues values =
     (if list_ex isExpression values
      then map (\<lambda>v. if v = js ''*'' then js ''TOP(3)'' else v) values
      else take 3 values)"

definition previewSelection :: "selection option \<Rightarrow> selection option" where
  "previewSelection selection =
     (case selection of
        None \<Rightarrow> None
      | Some sel \<Rightarrow> Some (assignAll previewValues sel))"

section \<open>Responses\<close>

text \<open>
  Every handler returns \<open>{content: [{type: 'text', text: JSON.stringify(v, null, 2)}]}\<close>. A
  handler is modelled by the value \<open>v\<close> it serialises; a property whose value is
  \<open>undefined\<close> is left out, as \<open>JSON.stringify\<close> leaves it out.
\<close>

datatype json =
    JNull
  | JBool bool
  | JNum int
  | JStr jsstring
  | JArr "json list"
  | JObj "(jsstring \<times> json) list"

fun field :: "string \<Rightarrow> json \<Rightarrow> json option" where
  "field k (JObj fs) = map_of fs (js k)"
| "field k v = None"

fun truthy :: "json \<Rightarrow> bool" where
  "truthy JNull = False"
| "truthy (JBool b) = b"
| "truthy (JNum n) = (n \<noteq> 0)"
| "truthy (JStr s) = (s \<noteq> [])"
| "truthy (JArr vs) = True"
| "truthy (JObj fs) = True"

definition orElse :: "json option \<Rightarrow> json \<Rightarrow> json" where
  \<comment> \<open>\<open>v || d\<close>, where \<open>None\<close> is \<open>undefined\<close>\<close>
  "orElse v d = (case v of None \<Rightarrow> d | Some x \<Rightarrow> if truthy x then x else d)"

definition warningOrNull :: "jsstring option \<Rightarrow> json" where
  \<comment> \<open>\<open>langValidation.warning || null\<close>\<close>
  "warningOrNull w = orElse (map_option JStr w) JNull"

definition selectionJson :: "selection \<Rightarrow> json" where
  "selectionJson sel = JObj (map (\<lambda>(key, values). (key, JArr (map JStr values))) sel)"

fun indexKey :: "nat \<Rightarrow> jsstring" where
  \<comment> \<open>the decimal numeral of an index, as a property key\<close>
  "indexKey n = (if n < 10 then [48 + n] else indexKey (n div 10) @ [48 + n mod 10])"

fun props :: "json option \<Rightarrow> json jsobject" where
  \<comment> \<open>the properties an object spread \<open>...v\<close> copies: the own properties of an object, the
    elements of an array and the characters of a string under their indices, nothing else\<close>
  "props (Some (JObj fs)) = fs"
| "props (Some (JArr vs)) = zip (map indexKey [0..<length vs]) vs"
| "props (Some (JStr s)) = zip (map indexKey [0..<length s]) (map (\<lambda>c. JStr [c]) s)"
| "props v = []"

definition createErrorResponse :: "json \<Rightarrow> json" where
  "createErrorResponse error = JObj [(js ''error'', error)]"

section \<open>The API client and the region database\<close>

text \<open>
  The modules \<open>./api-client.js\<close> and \<open>./regions.js\<close> are not part of the sources at hand;
  the handlers take what they import from them as parameters. A call of the API client
  either returns (\<open>Inr\<close>) or throws, and \<open>Inl\<close> carries the message the \<open>catch\<close> block
  reads (\<open>error instanceof Error ? error.message : String(error)\<close>).

  A dataset is the JSON-stat object of the upstream, with the properties the handlers
  read: \<open>label\<close>, \<open>size\<close>, \<open>source\<close>, \<open>updated\<close>, \<open>extension.contact\<close>,
  \<open>extension.notes\<close>, and under \<open>dimension\<close> one entry per dimension with \<open>label\<close>,
  \<open>category.index\<close> and the optional \<open>category.label\<close>. The arguments of a table search
  are the properties of the tool's input schema other than \<open>language\<close>; its result has the
  \<open>tables\<close> found and the four numbers of \<open>page\<close>. A region has the properties \<open>code\<close>,
  \<open>name\<close>, \<open>type\<close> and \<open>countyCode\<close>.
\<close>

record dimension_def =
  dim_label :: jsstring
  category_index :: "int jsobject"
  category_label :: "jsstring jsobject option"

record contact =
  contact_name :: "jsstring option"
  contact_mail :: "jsstring option"
  contact_phone :: "jsstring option"

record table_note =
  note_text :: jsstring
  note_mandatory :: "bool option"

record dataset =
  table_label :: jsstring
  dimension :: "dimension_def jsobject option"
  table_size :: "int list"
  table_source :: "jsstring option"
  table_updated :: "jsstring option"
  table_contact :: "contact list option"
  table_notes :: "table_note list option"

record search_args =
  arg_query :: "jsstring option"
  arg_category :: "jsstring option"
  arg_pageSize :: "int option"
  arg_pageNumber :: "int option"
  arg_pastDays :: "int option"
  arg_includeDiscontinued :: "bool option"

record table_entry =
  te_id :: jsstring
  te_label :: jsstring
  te_description :: "jsstring option"
  te_variableNames :: "jsstring list option"
  te_firstPeriod :: "jsstring option"
  te_lastPeriod :: "jsstring option"
  te_updated :: "jsstring option"
  te_source :: "jsstring option"
  te_discontinued :: "bool option"
  te_category :: "jsstring option"

record search_result =
  tables :: "table_entry list"
  page_pageNumber :: int
  page_totalPages :: int
  page_totalElements :: int
  page_pageSize :: int

record validation_result =
  isValid :: bool
  translatedSelection :: "selection option"
  errors :: "jsstring list"
  suggestions :: "jsstring list"

record api_client =
  getTableMetadata :: "jsstring \<Rightarrow> jsstring \<Rightarrow> jsstring + dataset"
  getTableData :: "jsstring \<Rightarrow> selection option \<Rightarrow> jsstring \<Rightarrow> jsstring + dataset"
  transformToStructuredData :: "dataset \<Rightarrow> selection option \<Rightarrow> jsstring + json jsobject"
  validateSelection :: "jsstring \<Rightarrow> selection \<Rightarrow> jsstring \<Rightarrow> jsstring + validation_result"
  searchTables :: "search_args \<Rightarrow> jsstring \<Rightarrow> jsstring + search_result"


record region =
  region_code :: jsstring
  region_name :: jsstring
  region_type :: jsstring
  region_countyCode :: "jsstring option"



section \<open>handleTestSelection\<close>

text \<open>
  \<open>emptySelectionResponse\<close> is the branch \<open>if (isEmptySelection)\<close>, \<open>validationResponse\<close>
  the rest of the function. The text \<open>responseText\<close> that the source assembles and never
  returns is not modelled.
\<close>

definition emptySelectionResponse :: "api_client \<Rightarrow> jsstring \<Rightarrow> lang_validation \<Rightarrow> json" where
  \<open>emptySelectionResponse api tableId langValidation =
     (case getTableMetadata api tableId (language langValidation) of
        Inr metadata \<Rightarrow>
          JObj [
            (js ''table_id'', JStr tableId),
            (js ''is_valid'', JBool True),
            (js ''selection_provided'', JBool False),
            (js ''language_used'', JStr (language langValidation)),
            (js ''language_warning'', warningOrNull (warning langValidation)),
            (js ''message'', JStr (js ''Empty selection is valid - API will use smart defaults (latest time period, all categories)'')),
            (js ''effective_selection'', JStr (js ''Will be determined by API at request time'')),
            (js ''available_variables'',
               JArr (map (\<lambda>(code, dimDef). JObj [
                       (js ''code'', JStr code),
                       (js ''label'', JStr (dim_label dimDef)),
                       (js ''value_count'', JNum (int (length (category_index dimDef))))])
                     (case dimension metadata of None \<Rightarrow> [] | Some dims \<Rightarrow> dims))),
            (js ''next_step'', JStr (js ''Use scb_get_table_data or scb_preview_data - they will apply default selection automatically'')),
            (js ''tips'', JArr [
               JStr (js ''For specific data, provide a selection like: {"Tid": ["2024"], "Region": ["0180"]}''),
               JStr (js ''Use scb_get_table_variables to see all available values'')])]
      | Inl msg \<Rightarrow>
          createErrorResponse (JObj [
            (js ''type'', JStr (js ''table_not_found'')),
            (js ''message'', JStr (js ''Could not validate table "'' @ tableId @ js ''": '' @ msg)),
            (js ''suggestions'', JArr [
               JStr (js ''Verify the table ID is correct (e.g., "TAB4552")''),
               JStr (js ''Use scb_search_tables to find valid table IDs'')])]))\<close>

definition validationResponse ::
  "api_client \<Rightarrow> jsstring \<Rightarrow> selection \<Rightarrow> lang_validation \<Rightarrow> json" where
  \<open>validationResponse api tableId sel langValidation =
     (case validateSelection api tableId sel (language langValidation) of
        Inr validation \<Rightarrow>
          JObj [
            (js ''table_id'', JStr tableId),
            (js ''is_valid'', JBool (isValid validation)),
            (js ''language_used'', JStr (language langValidation)),
            (js ''language_warning'', warningOrNull (warning langValidation)),
            (js ''selection'', selectionJson sel),
            (js ''translated_selection'',
               (case translatedSelection validation of None \<Rightarrow> JNull | Some t \<Rightarrow> selectionJson t)),
            (js ''errors'', JArr (map JStr (errors validation))),
            (js ''suggestions'', JArr (map JStr (suggestions validation))),
            (js ''next_step'', JStr (if isValid validation
               then js ''Use scb_get_table_data or scb_preview_data with this selection''
               else js ''Fix the errors above before requesting data''))]
      | Inl errorMessage \<Rightarrow>
          JObj [
            (js ''error'', JObj [
               (js ''type'', JStr (js ''selection_validation_failed'')),
               (js ''message'', JStr errorMessage),
               (js ''table_id'', JStr tableId),
               (js ''language_used'', JStr (language langValidation)),
               (js ''language_warning'', warningOrNull (warning langValidation))]),
            (js ''suggestions'', JArr [
               JStr (js ''Verify the table ID is correct''),
               JStr (js ''Use scb_get_table_variables to check available variables''),
               JStr (js ''Try scb_search_tables to find valid table IDs'')])])\<close>

definition handleTestSelection ::
  "api_client \<Rightarrow> jsstring \<Rightarrow> selection option \<Rightarrow> jsstring option \<Rightarrow> json" where
  "handleTestSelection api tableId selection languageArg =
     (let langValidation = validateLanguage languageArg;
          isEmptySelection = (case selection of None \<Rightarrow> True | Some sel \<Rightarrow> length sel = 0)
      in if isEmptySelection then emptySelectionResponse api tableId langValidation
         else (case selection of
                 Some sel \<Rightarrow> validationResponse api tableId sel langValidation
               | None \<Rightarrow> emptySelectionResponse api tableId langValidation))"

section \<open>Evaluating the summary text of a preview\<close>

text \<open>
  Inside its \<open>try\<close> block \<open>handlePreviewData\<close> assembles a text \<open>summary\<close> that it never
  returns. Evaluating that template reads \<open>structuredData.metadata.table_name\<close>,
  \<open>structuredData.summary.total_records.toLocaleString()\<close> and the first five entries of
  \<open>structuredData.data\<close>, and it throws a \<open>TypeError\<close> when one of these reads fails; the
  \<open>catch\<close> block then answers \<open>preview_failed\<close>.

  \<open>toStringThrows v\<close>: converting \<open>v\<close> to a string inside a template throws. An object
  with an own property \<open>toString\<close> (which is no function) cannot be converted; an array
  converts its elements.
  \<open>toLocaleStringThrows v\<close>: the call \<open>v.toLocaleString()\<close> throws, for a value that is
  neither \<open>null\<close> nor \<open>undefined\<close>.
  \<open>recordThrows r\<close>: the callback given to \<open>data.slice(0, 5).map\<close> throws on the record
  \<open>r\<close>; it reads \<open>r.value\<close> and converts the values of \<open>Object.entries(r)\<close> whose key is
  not \<open>value\<close>.
\<close>

fun toStringThrows :: "json \<Rightarrow> bool" where
  "toStringThrows (JObj fs) = (js ''toString'' \<in> set (map fst fs))"
| "toStringThrows (JArr vs) = (\<exists>v \<in> set vs. toStringThrows v)"
| "toStringThrows v = False"

fun toLocaleStringThrows :: "json \<Rightarrow> bool" where
  "toLocaleStringThrows (JObj fs) =
     (js ''toLocaleString'' \<in> set (map fst fs) \<or> js ''toString'' \<in> set (map fst fs))"
| "toLocaleStringThrows (JArr vs) = (\<exists>v \<in> set vs. toLocaleStringThrows v)"
| "toLocaleStringThrows v = False"

fun recordThrows :: "json \<Rightarrow> bool" where
  "recordThrows JNull = True"
| "recordThrows (JObj fs) =
     ((case map_of fs (js ''value'') of
         None \<Rightarrow> False
       | Some v \<Rightarrow> truthy v \<and> toStringThrows v)
      \<or> (\<exists>(k, v) \<in> set fs. k \<noteq> js ''value'' \<and> toStringThrows v))"
| "recordThrows (JArr vs) = (\<exists>v \<in> set vs. toStringThrows v)"
| "recordThrows r = False"

definition summaryThrows :: "json jsobject \<Rightarrow> bool" where
  "summaryThrows structuredData =
     ((case map_of structuredData (js ''metadata'') of
         None \<Rightarrow> True
       | Some JNull \<Rightarrow> True
       | Some metadata \<Rightarrow>
           (case field ''table_name'' metadata of
              None \<Rightarrow> False
            | Some tableName \<Rightarrow> toStringThrows tableName))
      \<or> (case map_of structuredData (js ''summary'') of
            None \<Rightarrow> True
          | Some JNull \<Rightarrow> True
          | Some summary \<Rightarrow>
              (case field ''total_records'' summary of
                 None \<Rightarrow> True
               | Some JNull \<Rightarrow> True
               | Some totalRecords \<Rightarrow> toLocaleStringThrows totalRecords))
      \<or> (case map_of structuredData (js ''data'') of
            Some (JArr records) \<Rightarrow> (\<exists>r \<in> set (take 5 records). recordThrows r)
          | _ \<Rightarrow> True))"

section \<open>handleGetTableData and handlePreviewData\<close>

text \<open>
  The effective selection, built by both handlers from the dimensions of the data
  returned: \<open>effectiveSelection[dimName] = Object.keys(dimDef.category.index)\<close> for every
  entry of \<open>data.dimension\<close>, on a fresh object.
\<close>

definition effectiveSelection :: "dataset \<Rightarrow> selection" where
  "effectiveSelection data =
     (case dimension data of
        None \<Rightarrow> []
      | Some dims \<Rightarrow> assignAll (\<lambda>dimDef. map fst (category_index dimDef)) dims)"

definition queryInfo ::
  "json jsobject \<Rightarrow> selection option \<Rightarrow> dataset \<Rightarrow> lang_validation \<Rightarrow> json" where
  \<comment> \<open>\<open>{...structuredData.query, selection, effective_selection, language_used, language_warning}\<close>\<close>
  "queryInfo structuredData selection data langValidation =
     JObj
       (setProp (js ''language_warning'') (warningOrNull (warning langValidation))
         (setProp (js ''language_used'') (JStr (language langValidation))
           (setProp (js ''effective_selection'') (selectionJson (effectiveSelection data))
             (setProp (js ''selection'')
                (selectionJson (case selection of None \<Rightarrow> [] | Some sel \<Rightarrow> sel))
                (props (map_of structuredData (js ''query'')))))))"

text \<open>
  The \<open>catch\<close> block of \<open>handleGetTableData\<close> looks for an upstream error object inside
  the message with a regular expression and \<open>JSON.parse\<close>; \<open>scbErrorOf\<close> stands for that
  extraction (\<open>None\<close> when nothing is found or parsing fails).
\<close>

definition dataFetchFailed ::
  "(jsstring \<Rightarrow> json option) \<Rightarrow> jsstring \<Rightarrow> selection option \<Rightarrow> lang_validation \<Rightarrow> jsstring \<Rightarrow> json"
  where
  "dataFetchFailed scbErrorOf tableId selection langValidation errorMessage =
     (let scbError = scbErrorOf errorMessage;
          scbField = (\<lambda>k. case scbError of None \<Rightarrow> None | Some e \<Rightarrow> field k e)
      in JObj [
           (js ''error'', JObj [
              (js ''type'', orElse (scbField ''type'') (JStr (js ''data_fetch_failed''))),
              (js ''message'', orElse (scbField ''title'') (JStr errorMessage)),
              (js ''http_status'', orElse (scbField ''status'') JNull),
              (js ''table_id'', JStr tableId),
              (js ''selection'', (case selection of None \<Rightarrow> JNull | Some sel \<Rightarrow> selectionJson sel)),
              (js ''language_used'', JStr (language langValidation)),
              (js ''language_warning'', warningOrNull (warning langValidation))]),
           (js ''suggestions'', JArr [
              JStr (js ''Use scb_test_selection to validate your selection first''),
              JStr (js ''Use scb_get_table_variables to see valid variable values''),
              JStr (js ''Try scb_preview_data for a safer initial exploration''),
              JStr (js ''Check that region/time codes are valid for this table'')])])"

definition handleGetTableData ::
  "api_client \<Rightarrow> (jsstring \<Rightarrow> json option) \<Rightarrow> jsstring \<Rightarrow> selection option \<Rightarrow> jsstring option \<Rightarrow> json"
  where
  "handleGetTableData api scbErrorOf tableId selection languageArg =
     (let langValidation = validateLanguage languageArg
      in case getTableData api tableId selection (language langValidation) of
           Inl errorMessage \<Rightarrow> dataFetchFailed scbErrorOf tableId selection langValidation errorMessage
         | Inr data \<Rightarrow>
             (case transformToStructuredData api data selection of
                Inl errorMessage \<Rightarrow>
                  dataFetchFailed scbErrorOf tableId selection langValidation errorMessage
              | Inr structuredData \<Rightarrow>
                  JObj (setProp (js ''query'')
                          (queryInfo structuredData selection data langValidation)
                          structuredData)))"

definition previewFailed :: "jsstring \<Rightarrow> lang_validation \<Rightarrow> jsstring \<Rightarrow> json" where
  "previewFailed tableId langValidation errorMessage =
     JObj [
       (js ''error'', JObj [
          (js ''type'', JStr (js ''preview_failed'')),
          (js ''message'', JStr errorMessage),
          (js ''table_id'', JStr tableId),
          (js ''language_used'', JStr (language langValidation)),
          (js ''language_warning'', warningOrNull (warning langValidation))]),
       (js ''suggestions'', JArr [
          JStr (js ''Use scb_test_selection to validate your selection first''),
          JStr (js ''Check variable names with scb_get_table_variables''),
          JStr (js ''Verify region codes with scb_find_region_code'')])]"

text \<open>
  \<open>handlePreviewData\<close>. When evaluating the text \<open>summary\<close> throws, the \<open>catch\<close> block
  answers with the message of the error; \<open>summaryErrorMessage\<close> stands for that message,
  which is the engine's text.
\<close>

definition handlePreviewData ::
  "api_client \<Rightarrow> (json jsobject \<Rightarrow> jsstring) \<Rightarrow> jsstring \<Rightarrow> selection option
     \<Rightarrow> jsstring option \<Rightarrow> json" where
  "handlePreviewData api summaryErrorMessage tableId selection languageArg =
     (let langValidation = validateLanguage languageArg;
          preview = previewSelection selection
      in case getTableData api tableId preview (language langValidation) of
           Inl errorMessage \<Rightarrow> previewFailed tableId langValidation errorMessage
         | Inr data \<Rightarrow>
             (case transformToStructuredData api data preview of
                Inl errorMessage \<Rightarrow> previewFailed tableId langValidation errorMessage
              | Inr structuredData \<Rightarrow>
                  if summaryThrows structuredData
                  then previewFailed tableId langValidation (summaryErrorMessage structuredData)
                  else
                    JObj (setProp (js ''preview_info'')
                            (JObj ([(js ''is_preview'', JBool True)]
                               @ (case selection of None \<Rightarrow> []
                                  | Some sel \<Rightarrow> [(js ''original_selection'', selectionJson sel)])
                               @ (case preview of None \<Rightarrow> []
                                  | Some sel \<Rightarrow> [(js ''preview_selection'', selectionJson sel)])
                               @ [(js ''note'', JStr (js ''This is a limited preview. Use scb_get_table_data for full dataset.''))]))
                            (setProp (js ''query'')
                               (queryInfo structuredData selection data langValidation)
                               structuredData))))"

section \<open>handleFindRegionCode\<close>















section \<open>handleGetTableInfo\<close>




section \<open>handleSearchRegions\<close>





section \<open>handleGetTableVariables\<close>









section \<open>handleSearchTables\<close>








section \<open>Specification-side definitions\<close>

text \<open>
  A casing variant of a lower-case ASCII word: the same letters, each in either case.
\<close>

definition sameLetter :: "nat \<Rightarrow> nat \<Rightarrow> bool" where
  "sameLetter u c = (u = c \<or> (97 \<le> c \<and> c \<le> 122 \<and> u + 32 = c))"

definition casingVariant :: "jsstring \<Rightarrow> jsstring \<Rightarrow> bool" where
  "casingVariant l c = list_all2 sameLetter l c"

text \<open>
  The normalisation and the match rule as the specification words them: lower case, the
  letters U+00E5 and U+00E4 to \<open>a\<close>, U+00F6 to \<open>o\<close>, U+00E9 to \<open>e\<close>, U+00FC to \<open>u\<close>,
  then trim; a candidate matches when the normalised names are equal, or the lower-cased
  code equals the normalised query, or one normalised name contains the other, or the
  code contains the normalised query.
\<close>

definition unaccent :: "nat \<Rightarrow> nat" where
  "unaccent c =
     (if c = 229 \<or> c = 228 then 97
      else if c = 246 then 111
      else if c = 233 then 101
      else if c = 252 then 117
      else c)"

definition normalizeSpec :: "jsstring \<Rightarrow> jsstring" where
  "normalizeSpec s = trim (map unaccent (toLowerCase s))"

definition fuzzyMatchSpec :: "jsstring \<Rightarrow> jsstring \<Rightarrow> jsstring \<Rightarrow> bool" where
  "fuzzyMatchSpec query regionName regionCode =
     (normalizeSpec regionName = normalizeSpec query
      \<or> toLowerCase regionCode = normalizeSpec query
      \<or> includes_js (normalizeSpec regionName) (normalizeSpec query)
      \<or> includes_js (normalizeSpec query) (normalizeSpec regionName)
      \<or> includes_js regionCode (normalizeSpec query))"

text \<open>A name stripped of its diacritics, letter by letter.\<close>

definition stripDiacritics :: "jsstring \<Rightarrow> jsstring" where
  "stripDiacritics s = map unaccent s"




definition effectiveSelectionOf :: "json \<Rightarrow> json option" where
  \<comment> \<open>the property \<open>query.effective_selection\<close> of a response\<close>
  "effectiveSelectionOf response =
     (case field ''query'' response of None \<Rightarrow> None | Some q \<Rightarrow> field ''effective_selection'' q)"

section \<open>Sample inputs\<close>

text \<open>
  A dataset with one time dimension, the same dataset with a further dimension named
  \<open>__proto__\<close>, an API client that knows the single table \<open>TAB4552\<close> (and a second client
  that returns the second dataset as its data), the arguments of a table search, and a
  region database with one county and one municipality.
\<close>

definition sampleData :: dataset where
  "sampleData =
     \<lparr>table_label = js ''Population'',
      dimension = Some [(js ''Tid'',
        \<lparr>dim_label = js ''year'',
         category_index = [(js ''2023'', 0), (js ''2024'', 1)],
         category_label = None\<rparr>)],
      table_size = [2],
      table_source = None,
      table_updated = None,
      table_contact = None,
      table_notes = None\<rparr>"

definition protoData :: dataset where
  "protoData =
     sampleData\<lparr>dimension := Some [
       (js ''__proto__'',
        \<lparr>dim_label = js ''kind'', category_index = [(js ''a'', 0)], category_label = None\<rparr>),
       (js ''Tid'',
        \<lparr>dim_label = js ''year'',
         category_index = [(js ''2023'', 0), (js ''2024'', 1)],
         category_label = None\<rparr>)]\<rparr>"

definition sampleApi :: api_client where
  "sampleApi =
     \<lparr>getTableMetadata =
        (\<lambda>tableId lang. if tableId = js ''TAB4552'' then Inr sampleData else Inl (js ''404 Not Found'')),
      getTableData =
        (\<lambda>tableId sel lang. if tableId = js ''TAB4552'' then Inr sampleData else Inl (js ''404 Not Found'')),
      transformToStructuredData =
        (\<lambda>data sel. Inr [(js ''query'', JObj [(js ''table_id'', JStr (js ''TAB4552''))]),
                         (js ''data'', JArr [JObj [(js ''Tid'', JStr (js ''2023'')), (js ''value'', JNum 10)]]),
                         (js ''metadata'', JObj [(js ''table_name'', JStr (js ''Population''))]),
                         (js ''summary'', JObj [(js ''total_records'', JNum 1)])]),
      validateSelection =
        (\<lambda>tableId sel lang. Inl (js ''404 Not Found'')),
      searchTables =
        (\<lambda>request lang. Inr \<lparr>tables = [], page_pageNumber = 1, page_totalPages = 0,
                                page_totalElements = 0, page_pageSize = 20\<rparr>)\<rparr>"

definition protoApi :: api_client where
  "protoApi = sampleApi\<lparr>getTableData := (\<lambda>tableId sel lang. Inr protoData)\<rparr>"





section \<open>Language validation\<close>

lemma SUPPORTED_LANGUAGES_codes: "set SUPPORTED_LANGUAGES = {[115, 118], [101, 110]}"
  by (auto simp: SUPPORTED_LANGUAGES_def js_def)

lemma casingVariant_lower:
  assumes "c \<in> set SUPPORTED_LANGUAGES" and "casingVariant l c"
  shows "toLowerCase l = c" and "l \<noteq> []"
proof -
  from assms(1) consider "c = [115, 118]" | "c = [101, 110]"
    unfolding SUPPORTED_LANGUAGES_codes by blast
  then have "toLowerCase l = c \<and> l \<noteq> []"
  proof cases
    case 1
    with assms(2) obtain a b where l: "l = [a, b]" and "sameLetter a 115" and "sameLetter b 118"
      by (auto simp: casingVariant_def list_all2_Cons2)
    then show ?thesis using 1
      by (auto simp: sameLetter_def toLowerCase_def lowerUnit_def)
  next
    case 2
    with assms(2) obtain a b where l: "l = [a, b]" and "sameLetter a 101" and "sameLetter b 110"
      by (auto simp: casingVariant_def list_all2_Cons2)
    then show ?thesis using 2
      by (auto simp: sameLetter_def toLowerCase_def lowerUnit_def)
  qed
  then show "toLowerCase l = c" and "l \<noteq> []" by simp_all
qed

text \<open>
  C10. Every casing variant of one of the two supported codes (\<open>SV\<close>, \<open>En\<close>, ...) is
  accepted: the result is valid, carries the lower-case code and no warning, and is the
  very result of validating the lower-case code itself.
\<close>

theorem validateLanguage_case_insensitive:
  assumes "c \<in> set SUPPORTED_LANGUAGES" and "casingVariant l c"
  shows "validateLanguage (Some l) = \<lparr>valid = True, language = c, warning = None\<rparr>
         \<and> validateLanguage (Some l) = validateLanguage (Some c)"
proof -
  have l: "toLowerCase l = c" "l \<noteq> []"
    using casingVariant_lower [OF assms] by simp_all
  have cc: "casingVariant c c"
    using assms(1) unfolding SUPPORTED_LANGUAGES_codes
    by (auto simp: casingVariant_def sameLetter_def)
  have c: "toLowerCase c = c" "c \<noteq> []"
    using casingVariant_lower [OF assms(1) cc] by simp_all
  have "validateLanguage (Some l) = \<lparr>valid = True, language = c, warning = None\<rparr>"
    using l assms(1) by (simp add: validateLanguage_def Let_def)
  moreover have "validateLanguage (Some c) = \<lparr>valid = True, language = c, warning = None\<rparr>"
    using c assms(1) by (simp add: validateLanguage_def Let_def)
  ultimately show ?thesis by simp
qed

theorem validateLanguage_case_insensitive_witness:
  "js ''en'' \<in> set SUPPORTED_LANGUAGES \<and> casingVariant (js ''En'') (js ''en'')
   \<and> validateLanguage (Some (js ''En'')) = \<lparr>valid = True, language = js ''en'', warning = None\<rparr>
   \<and> validateLanguage (Some (js ''En'')) = validateLanguage (Some (js ''en''))"
proof -
  have a: "js ''en'' \<in> set SUPPORTED_LANGUAGES"
    by (simp add: SUPPORTED_LANGUAGES_def)
  have b: "casingVariant (js ''En'') (js ''en'')"
    by (simp add: casingVariant_def sameLetter_def js_def)
  show ?thesis
    using a b validateLanguage_case_insensitive [OF a b] by blast
qed

lemma js_eq_iff: "js a = js b \<longleftrightarrow> a = b"
proof -
  have "inj (of_char :: char \<Rightarrow> nat)"
    by (rule injI) simp
  then show ?thesis
    by (simp add: js_def)
qed

lemma map_of_setProp_same: "map_of (setProp k v fs) k = Some v"
  by (induction fs) auto

lemma map_of_setProp_other: "k' \<noteq> k \<Longrightarrow> map_of (setProp k v fs) k' = map_of fs k'"
  by (induction fs) auto





subsection \<open>Where the responses report the warning\<close>






























subsection \<open>The language argument does not decide whether a call fails\<close>














section \<open>Fuzzy region matching\<close>

lemma fuzzyMatchRegion_iff:
  "fuzzyMatchRegion query regionName regionCode \<longleftrightarrow>
     normalizeSwedish regionName = normalizeSwedish query
     \<or> toLowerCase regionCode = normalizeSwedish query
     \<or> includes_js (normalizeSwedish regionName) (normalizeSwedish query)
     \<or> includes_js (normalizeSwedish query) (normalizeSwedish regionName)
     \<or> includes_js (toLowerCase regionCode) (normalizeSwedish query)"
  by (simp add: fuzzyMatchRegion_def Let_def)

lemma replaceAll_absent: "p \<notin> set s \<Longrightarrow> replaceAll (p # ps) rep s = s"
  by (induction s) auto

lemma toLowerCase_no_root: "8730 \<notin> set s \<Longrightarrow> 8730 \<notin> set (toLowerCase s)"
  by (auto simp: toLowerCase_def lowerUnit_def split: if_splits)

text \<open>
  On a string without the character U+221A no pattern of \<open>normalizeSwedish\<close> matches:
  the string is lower-cased and trimmed, and nothing else.
\<close>

lemma normalizeSwedish_plain:
  assumes "8730 \<notin> set s"
  shows "normalizeSwedish s = trim (toLowerCase s)"
  using toLowerCase_no_root [OF assms] by (simp add: normalizeSwedish_def replaceAll_absent)

lemma normalizeSwedish_Goteborg:
  "normalizeSwedish (js ''G'' @ [246] @ js ''teborg'') = js ''g'' @ [246] @ js ''teborg''"
  by (simp add: normalizeSwedish_def toLowerCase_def lowerUnit_def trim_def isWhiteSpace_def
      js_def)

lemma normalizeSwedish_goteborg:
  "normalizeSwedish (js ''goteborg'') = js ''goteborg''"
  by (simp add: normalizeSwedish_def toLowerCase_def lowerUnit_def trim_def isWhiteSpace_def
      js_def)

text \<open>
  C3 at the query \<open>goteborg\<close>, the region name \<open>G\<close> U+00F6 \<open>teborg\<close> and the code
  \<open>1480\<close>: the rule of the specification accepts, \<open>fuzzyMatchRegion\<close> rejects, because
  \<open>normalizeSwedish\<close> leaves the letter U+00F6 in place.
\<close>

theorem fuzzyMatchRegion_differs_from_spec:
  "fuzzyMatchSpec (js ''goteborg'') (js ''G'' @ [246] @ js ''teborg'') (js ''1480'')
   \<and> \<not> fuzzyMatchRegion (js ''goteborg'') (js ''G'' @ [246] @ js ''teborg'') (js ''1480'')"
proof -
  have "normalizeSpec (js ''G'' @ [246] @ js ''teborg'') = normalizeSpec (js ''goteborg'')"
    by (simp add: normalizeSpec_def toLowerCase_def lowerUnit_def unaccent_def js_def)
  then have spec: "fuzzyMatchSpec (js ''goteborg'') (js ''G'' @ [246] @ js ''teborg'') (js ''1480'')"
    by (simp add: fuzzyMatchSpec_def)
  have code: "\<not> fuzzyMatchRegion (js ''goteborg'') (js ''G'' @ [246] @ js ''teborg'') (js ''1480'')"
    unfolding fuzzyMatchRegion_iff normalizeSwedish_Goteborg normalizeSwedish_goteborg
    by (simp add: toLowerCase_def lowerUnit_def startsWith_def js_def)
  from spec code show ?thesis by simp
qed

text \<open>
  C4 at the region \<open>Malm\<close> U+00F6 with code \<open>1280\<close>: the name stripped of its diacritics
  is \<open>Malmo\<close>, and \<open>fuzzyMatchRegion\<close> rejects that query against the region.
\<close>

theorem fuzzyMatchRegion_rejects_stripped_name:
  "stripDiacritics (js ''Malm'' @ [246]) = js ''Malmo''
   \<and> \<not> fuzzyMatchRegion (stripDiacritics (js ''Malm'' @ [246])) (js ''Malm'' @ [246]) (js ''1280'')"
proof -
  have s: "stripDiacritics (js ''Malm'' @ [246]) = js ''Malmo''"
    by (simp add: stripDiacritics_def unaccent_def js_def)
  have q: "normalizeSwedish (js ''Malmo'') = js ''malmo''"
    by (simp add: normalizeSwedish_def toLowerCase_def lowerUnit_def trim_def isWhiteSpace_def
        js_def)
  have n: "normalizeSwedish (js ''Malm'' @ [246]) = js ''malm'' @ [246]"
    by (simp add: normalizeSwedish_def toLowerCase_def lowerUnit_def trim_def isWhiteSpace_def
        js_def)
  have "\<not> fuzzyMatchRegion (js ''Malmo'') (js ''Malm'' @ [246]) (js ''1280'')"
    unfolding fuzzyMatchRegion_iff q n
    by (simp add: toLowerCase_def lowerUnit_def startsWith_def js_def)
  with s show ?thesis by simp
qed

section \<open>Keyed assignment\<close>

lemma setProp_fresh: "k \<notin> fst ` set fs \<Longrightarrow> setProp k v fs = fs @ [(k, v)]"
  by (induction fs) auto

lemma assign_loop:
  assumes "distinct (map fst source)" and "fst ` set source \<inter> fst ` set target = {}"
  shows "foldl (\<lambda>target (key, x). assignProp key (f x) target) target source
         = target @ map (\<lambda>(key, x). (key, f x))
                      (filter (\<lambda>(key, x). key \<noteq> js ''__proto__'') source)"
  using assms
proof (induction source arbitrary: target)
  case Nil
  then show ?case by simp
next
  case (Cons e source)
  obtain k x where e: "e = (k, x)" by (cases e)
  from Cons.prems e have d: "distinct (map fst source)" and k: "k \<notin> fst ` set source"
    and kt: "k \<notin> fst ` set target" and st: "fst ` set source \<inter> fst ` set target = {}"
    by auto
  show ?case
  proof (cases "k = js ''__proto__''")
    case True
    then show ?thesis
      using Cons.IH [OF d st] e by (simp add: assignProp_def)
  next
    case False
    have "fst ` set source \<inter> fst ` set (target @ [(k, f x)]) = {}"
      using st k by auto
    from Cons.IH [OF d this] show ?thesis
      using False e kt by (simp add: assignProp_def setProp_fresh)
  qed
qed

lemma assignAll_distinct:
  assumes "distinct (map fst source)"
  shows "assignAll f source
         = map (\<lambda>(key, x). (key, f x)) (filter (\<lambda>(key, x). key \<noteq> js ''__proto__'') source)"
  using assign_loop [OF assms, of "[]" f] by (simp add: assignAll_def)

lemma assignAll_lookup:
  assumes "distinct (map fst source)" and "(key, x) \<in> set source" and "key \<noteq> js ''__proto__''"
  shows "map_of (assignAll f source) key = Some (f x)"
proof -
  let ?kept = "filter (\<lambda>(key, x). key \<noteq> js ''__proto__'') source"
  have "distinct (map fst ?kept)"
    using assms(1) by (simp add: distinct_map_filter)
  moreover have "(key, x) \<in> set ?kept"
    using assms(2,3) by simp
  ultimately have "map_of ?kept key = Some x"
    by (rule map_of_is_SomeI)
  then have "map_of (map (\<lambda>(key, x). (key, f x)) ?kept) key = Some (f x)"
    by (simp add: map_of_map)
  then show ?thesis
    by (simp add: assignAll_distinct [OF assms(1)])
qed

lemma assignAll_keys:
  assumes "distinct (map fst source)"
  shows "map fst (assignAll f source) = filter (\<lambda>key. key \<noteq> js ''__proto__'') (map fst source)"
  by (simp add: assignAll_distinct [OF assms] filter_map comp_def case_prod_unfold)

section \<open>The limited selection of a preview\<close>

lemma isExpression_star: "isExpression (js ''*'')"
  by (simp add: isExpression_def)

lemma star_not_top3: "js ''TOP(3)'' \<noteq> js ''*''"
  by (simp add: js_def)

lemma length_previewValues: "length (previewValues values) \<le> length values"
  by (simp add: previewValues_def)

lemma previewValues_plain:
  assumes "\<not> (\<exists>v \<in> set values. isExpression v)"
  shows "previewValues values = take 3 values"
  using assms by (simp add: previewValues_def list_ex_iff)

lemma previewValues_expression:
  assumes "\<exists>v \<in> set values. isExpression v"
  shows "previewValues values = map (\<lambda>v. if v = js ''*'' then js ''TOP(3)'' else v) values"
  using assms by (simp add: previewValues_def list_ex_iff)

lemma previewValues_star:
  assumes "j < length values" and "values ! j = js ''*''"
  shows "j < length (previewValues values) \<and> previewValues values ! j = js ''TOP(3)''"
proof -
  from assms have "\<exists>v \<in> set values. isExpression v"
    using isExpression_star nth_mem by metis
  then have "previewValues values = map (\<lambda>v. if v = js ''*'' then js ''TOP(3)'' else v) values"
    by (rule previewValues_expression)
  with assms show ?thesis by simp
qed

lemma previewValues_no_star: "js ''*'' \<notin> set (previewValues values)"
proof (cases "\<exists>v \<in> set values. isExpression v")
  case True
  then show ?thesis
    using star_not_top3 by (auto simp: previewValues_expression)
next
  case False
  then have "js ''*'' \<notin> set values"
    using isExpression_star by blast
  then show ?thesis
    using False by (auto simp: previewValues_plain dest: in_set_takeD)
qed

lemma previewValues_other:
  assumes "j < length (previewValues values)" and "values ! j \<noteq> js ''*''"
  shows "previewValues values ! j = values ! j"
proof (cases "\<exists>v \<in> set values. isExpression v")
  case True
  with assms show ?thesis by (simp add: previewValues_expression)
next
  case False
  with assms show ?thesis by (simp add: previewValues_plain)
qed

lemma previewValues_nth:
  assumes "j < length (previewValues values)"
  shows "previewValues values ! j = (if values ! j = js ''*'' then js ''TOP(3)'' else values ! j)"
proof -
  from assms have "j < length values"
    using length_previewValues [of "values"] by simp
  then show ?thesis
    using previewValues_star previewValues_other [OF assms] by simp
qed

text \<open>
  A dimension of a selection whose name is not \<open>__proto__\<close> is a dimension of the
  limited selection, with the limited list of its tokens.
\<close>

lemma previewSelection_entry:
  assumes "distinct (map fst sel)" and "(key, values) \<in> set sel" and "key \<noteq> js ''__proto__''"
  shows "\<exists>sel'. previewSelection (Some sel) = Some sel'
           \<and> map_of sel' key = Some (previewValues values)"
  using assignAll_lookup [OF assms] by (simp add: previewSelection_def)

text \<open>
  C1, as the code has it. Take a selection (an object: its keys are distinct) and a
  dimension of it whose name is not \<open>__proto__\<close>. The limited selection has this
  dimension. When its list holds no \<open>*\<close> and no token starting with \<open>TOP(\<close> or \<open>BOTTOM(\<close>,
  the list is cut to its first 3 entries; a list holding such a token keeps its length.
  In both cases a \<open>*\<close> becomes \<open>TOP(3)\<close> and every other token that is kept, \<open>TOP(n)\<close> and
  \<open>BOTTOM(n)\<close> included, is left as it is.
\<close>

theorem previewSelection_clamp:
  assumes "distinct (map fst sel)" and "(key, values) \<in> set sel" and "key \<noteq> js ''__proto__''"
  shows "\<exists>sel' values'. previewSelection (Some sel) = Some sel' \<and> map_of sel' key = Some values'
     \<and> (if \<exists>v \<in> set values. isExpression v
        then length values' = length values
        else values' = take 3 values \<and> length values' \<le> 3)
     \<and> (\<forall>j < length values'.
           values' ! j = (if values ! j = js ''*'' then js ''TOP(3)'' else values ! j))"
proof -
  obtain sel' where s: "previewSelection (Some sel) = Some sel'"
    and m: "map_of sel' key = Some (previewValues values)"
    using previewSelection_entry [OF assms] by blast
  have "if \<exists>v \<in> set values. isExpression v
        then length (previewValues values) = length values
        else previewValues values = take 3 values \<and> length (previewValues values) \<le> 3"
    by (simp add: previewValues_plain previewValues_expression)
  moreover have "\<forall>j < length (previewValues values).
           previewValues values ! j = (if values ! j = js ''*'' then js ''TOP(3)'' else values ! j)"
    using previewValues_nth by blast
  ultimately show ?thesis
    using s m by blast
qed

theorem previewSelection_clamp_witness:
  "distinct (map fst [(js ''Tid'', [js ''2019'', js ''2020'', js ''2021'', js ''2022''])])
   \<and> js ''Tid'' \<noteq> js ''__proto__''
   \<and> (\<exists>sel' values'.
         previewSelection (Some [(js ''Tid'', [js ''2019'', js ''2020'', js ''2021'', js ''2022''])])
           = Some sel'
         \<and> map_of sel' (js ''Tid'') = Some values'
         \<and> values' = [js ''2019'', js ''2020'', js ''2021'']
         \<and> values' ! 0 = js ''2019'')"
proof -
  let ?vs = "[js ''2019'', js ''2020'', js ''2021'', js ''2022'']"
  let ?sel = "[(js ''Tid'', ?vs)]"
  have d: "distinct (map fst ?sel)"
    by simp
  have i: "(js ''Tid'', ?vs) \<in> set ?sel"
    by simp
  have k: "js ''Tid'' \<noteq> js ''__proto__''"
    by (simp add: js_def)
  have plain: "\<not> (\<exists>v \<in> set ?vs. isExpression v)"
    by (simp add: isExpression_def startsWith_def js_def)
  have ns: "?vs ! 0 \<noteq> js ''*''"
    by (simp add: js_def)
  obtain sel' values' where s: "previewSelection (Some ?sel) = Some sel'"
    and m: "map_of sel' (js ''Tid'') = Some values'"
    and c: "if \<exists>v \<in> set ?vs. isExpression v
        then length values' = length ?vs
        else values' = take 3 ?vs \<and> length values' \<le> 3"
    and n: "\<forall>j < length values'.
           values' ! j = (if ?vs ! j = js ''*'' then js ''TOP(3)'' else ?vs ! j)"
    using previewSelection_clamp [OF d i k] by blast
  from c plain have v: "values' = [js ''2019'', js ''2020'', js ''2021'']"
    by simp
  with n ns have "values' ! 0 = js ''2019''"
    by simp
  with d k s m v show ?thesis
    by blast
qed

text \<open>
  A dimension that requests \<open>*\<close> next to three value codes keeps its four entries.
\<close>

theorem previewSelection_four_entries:
  "previewSelection (Some [(js ''Tid'', [js ''*'', js ''2020'', js ''2021'', js ''2022''])])
     = Some [(js ''Tid'', [js ''TOP(3)'', js ''2020'', js ''2021'', js ''2022''])]
   \<and> length [js ''TOP(3)'', js ''2020'', js ''2021'', js ''2022''] = 4"
  by (simp add: previewSelection_def assignAll_def assignProp_def previewValues_def
      isExpression_def js_def)

text \<open>
  Every \<open>*\<close> of a dimension whose name is not \<open>__proto__\<close> is \<open>TOP(3)\<close> at the same
  position of the limited selection, which has no more tokens in that dimension and no
  \<open>*\<close> left.
\<close>

lemma previewSelection_converts_star:
  assumes "distinct (map fst sel)" and "(key, values) \<in> set sel" and "key \<noteq> js ''__proto__''"
  shows "\<exists>sel' values'. previewSelection (Some sel) = Some sel' \<and> map_of sel' key = Some values'
     \<and> length values' \<le> length values
     \<and> (\<forall>j < length values. values ! j = js ''*'' \<longrightarrow>
           j < length values' \<and> values' ! j = js ''TOP(3)'')
     \<and> js ''*'' \<notin> set values'"
  using previewSelection_entry [OF assms] length_previewValues previewValues_star
    previewValues_no_star
  by blast

text \<open>
  C9 at the selection \<open>{"__proto__": ["*"], "Tid": ["*"]}\<close>: the limited selection is
  \<open>{"Tid": ["TOP(3)"]}\<close>. The \<open>*\<close> of the dimension \<open>__proto__\<close> is not converted to
  \<open>TOP(3)\<close>; the dimension is gone from the output.
\<close>

theorem previewSelection_drops_proto:
  "previewSelection (Some [(js ''__proto__'', [js ''*'']), (js ''Tid'', [js ''*''])])
     = Some [(js ''Tid'', [js ''TOP(3)''])]"
  by (simp add: previewSelection_def assignAll_def assignProp_def previewValues_def
      isExpression_def js_def)

section \<open>Page size of a table search\<close>





section \<open>Testing an empty selection\<close>

lemma handleTestSelection_empty:
  assumes "selection = None \<or> selection = Some []"
  shows "handleTestSelection api tableId selection languageArg
         = emptySelectionResponse api tableId (validateLanguage languageArg)"
  using assms by (auto simp: handleTestSelection_def Let_def)

lemma emptySelectionResponse_valid_table:
  assumes "getTableMetadata api tableId (language lv) = Inr metadata"
  shows "field ''is_valid'' (emptySelectionResponse api tableId lv) = Some (JBool True)"
    and "field ''selection_provided'' (emptySelectionResponse api tableId lv) = Some (JBool False)"
    and "field ''effective_selection'' (emptySelectionResponse api tableId lv)
         = Some (JStr (js ''Will be determined by API at request time''))"
    and "field ''error'' (emptySelectionResponse api tableId lv) = None"
    and "field ''errors'' (emptySelectionResponse api tableId lv) = None"
    and "field ''selection'' (emptySelectionResponse api tableId lv) = None"
    and "field ''translated_selection'' (emptySelectionResponse api tableId lv) = None"
  using assms by (simp_all add: emptySelectionResponse_def js_def)

lemma emptySelectionResponse_validator:
  "emptySelectionResponse (api\<lparr>validateSelection := v\<rparr>) tableId lv
   = emptySelectionResponse api tableId lv"
  by (simp add: emptySelectionResponse_def)

text \<open>
  C2. When the selection is absent or empty and the metadata of the table can be fetched
  (the table id is valid), the response reports \<open>is_valid: true\<close> and
  \<open>selection_provided: false\<close>; it holds no \<open>error\<close> and no \<open>errors\<close>, and it does not
  depend on the selection validator of the API client. No selection is made up: the
  response has no \<open>selection\<close> or \<open>translated_selection\<close>, and its \<open>effective_selection\<close>
  is the fixed text that leaves the choice to the API.
\<close>

theorem handleTestSelection_empty_selection_valid:
  assumes "selection = None \<or> selection = Some []"
    and "getTableMetadata api tableId (language (validateLanguage languageArg)) = Inr metadata"
  shows "field ''is_valid'' (handleTestSelection api tableId selection languageArg) = Some (JBool True)
     \<and> field ''selection_provided'' (handleTestSelection api tableId selection languageArg)
         = Some (JBool False)
     \<and> field ''error'' (handleTestSelection api tableId selection languageArg) = None
     \<and> field ''errors'' (handleTestSelection api tableId selection languageArg) = None
     \<and> field ''selection'' (handleTestSelection api tableId selection languageArg) = None
     \<and> field ''translated_selection'' (handleTestSelection api tableId selection languageArg) = None
     \<and> field ''effective_selection'' (handleTestSelection api tableId selection languageArg)
         = Some (JStr (js ''Will be determined by API at request time''))
     \<and> (\<forall>v. handleTestSelection (api\<lparr>validateSelection := v\<rparr>) tableId selection languageArg
            = handleTestSelection api tableId selection languageArg)"
  unfolding handleTestSelection_empty [OF assms(1)]
  using emptySelectionResponse_valid_table [OF assms(2)] emptySelectionResponse_validator
  by simp

theorem handleTestSelection_empty_selection_valid_witness:
  "getTableMetadata sampleApi (js ''TAB4552'') (language (validateLanguage None)) = Inr sampleData
   \<and> field ''is_valid'' (handleTestSelection sampleApi (js ''TAB4552'') (Some []) None)
       = Some (JBool True)
   \<and> field ''selection_provided'' (handleTestSelection sampleApi (js ''TAB4552'') (Some []) None)
       = Some (JBool False)
   \<and> field ''error'' (handleTestSelection sampleApi (js ''TAB4552'') (Some []) None) = None"
proof -
  have s: "Some [] = None \<or> Some [] = (Some [] :: selection option)"
    by simp
  have m: "getTableMetadata sampleApi (js ''TAB4552'') (language (validateLanguage None))
           = Inr sampleData"
    by (simp add: sampleApi_def)
  show ?thesis
    using m handleTestSelection_empty_selection_valid [OF s m] by simp
qed

section \<open>The effective selection\<close>

lemma effectiveSelectionOf_queryInfo:
  "field ''effective_selection'' (queryInfo structuredData selection data lv)
   = Some (selectionJson (effectiveSelection data))"
proof -
  have a: "js ''effective_selection'' \<noteq> js ''language_warning''"
    and b: "js ''effective_selection'' \<noteq> js ''language_used''"
    by (simp_all add: js_eq_iff)
  show ?thesis
    by (simp add: queryInfo_def map_of_setProp_other [OF a] map_of_setProp_other [OF b]
        map_of_setProp_same)
qed

lemma effectiveSelectionOf_handleGetTableData:
  assumes "getTableData api tableId selection (language (validateLanguage languageArg)) = Inr data"
    and "transformToStructuredData api data selection = Inr structuredData"
  shows "effectiveSelectionOf (handleGetTableData api scbErrorOf tableId selection languageArg)
         = Some (selectionJson (effectiveSelection data))"
  using assms
  by (simp add: handleGetTableData_def effectiveSelectionOf_def Let_def map_of_setProp_same
      effectiveSelectionOf_queryInfo)

lemma effectiveSelectionOf_handlePreviewData:
  assumes "getTableData api tableId (previewSelection selection)
             (language (validateLanguage languageArg)) = Inr data"
    and "transformToStructuredData api data (previewSelection selection) = Inr structuredData"
    and "\<not> summaryThrows structuredData"
  shows "effectiveSelectionOf
           (handlePreviewData api summaryErrorMessage tableId selection languageArg)
         = Some (selectionJson (effectiveSelection data))"
proof -
  have a: "js ''query'' \<noteq> js ''preview_info''"
    by (simp add: js_eq_iff)
  show ?thesis
    using assms
    by (simp add: handlePreviewData_def effectiveSelectionOf_def Let_def
        map_of_setProp_other [OF a] map_of_setProp_same effectiveSelectionOf_queryInfo)
qed

text \<open>
  What the effective selection holds for a dimension of the data whose name is not
  \<open>__proto__\<close>: the codes of the \<open>category.index\<close> of that dimension, whatever was
  requested.
\<close>

lemma effectiveSelection_dimension:
  assumes "dimension data = Some dims" and "distinct (map fst dims)"
    and "(dimName, dimDef) \<in> set dims" and "dimName \<noteq> js ''__proto__''"
  shows "\<exists>es. selectionJson (effectiveSelection data) = JObj es
           \<and> map_of es dimName = Some (JArr (map JStr (map fst (category_index dimDef))))"
proof -
  let ?codes = "\<lambda>dimDef. map fst (category_index dimDef)"
  have "map_of (assignAll ?codes dims) dimName = Some (?codes dimDef)"
    by (rule assignAll_lookup [OF assms(2,3,4)])
  then have "map_of (map (\<lambda>(key, values). (key, JArr (map JStr values))) (assignAll ?codes dims))
               dimName = Some (JArr (map JStr (?codes dimDef)))"
    by (simp add: map_of_map)
  then show ?thesis
    using assms(1) by (simp add: selectionJson_def effectiveSelection_def)
qed

lemma effectiveSelection_proto:
  "effectiveSelection protoData = [(js ''Tid'', [js ''2023'', js ''2024''])]"
  by (simp add: effectiveSelection_def protoData_def sampleData_def assignAll_def assignProp_def
      js_eq_iff)

text \<open>
  C6 at a response whose dimensions are \<open>__proto__\<close> (with the code \<open>a\<close> in its index) and
  \<open>Tid\<close> (with the codes \<open>2023\<close> and \<open>2024\<close>): the data are fetched and transformed, and the
  \<open>effective_selection\<close> reported by \<open>handleGetTableData\<close> and by \<open>handlePreviewData\<close> is
  \<open>{"Tid": ["2023", "2024"]}\<close>. The dimension \<open>__proto__\<close> of the response is not in it.
\<close>

theorem effective_selection_drops_proto:
  "map (\<lambda>(dimName, dimDef). (dimName, map fst (category_index dimDef)))
      (case dimension protoData of None \<Rightarrow> [] | Some dims \<Rightarrow> dims)
     = [(js ''__proto__'', [js ''a'']), (js ''Tid'', [js ''2023'', js ''2024''])]
   \<and> effectiveSelectionOf (handleGetTableData protoApi (\<lambda>m. None) (js ''TAB4552'') None None)
       = Some (JObj [(js ''Tid'', JArr [JStr (js ''2023''), JStr (js ''2024'')])])
   \<and> effectiveSelectionOf (handlePreviewData protoApi (\<lambda>sd. []) (js ''TAB4552'') None None)
       = Some (JObj [(js ''Tid'', JArr [JStr (js ''2023''), JStr (js ''2024'')])])"
proof -
  let ?sd = "[(js ''query'', JObj [(js ''table_id'', JStr (js ''TAB4552''))]),
              (js ''data'', JArr [JObj [(js ''Tid'', JStr (js ''2023'')), (js ''value'', JNum 10)]]),
              (js ''metadata'', JObj [(js ''table_name'', JStr (js ''Population''))]),
              (js ''summary'', JObj [(js ''total_records'', JNum 1)])]"
  have d: "map (\<lambda>(dimName, dimDef). (dimName, map fst (category_index dimDef)))
      (case dimension protoData of None \<Rightarrow> [] | Some dims \<Rightarrow> dims)
     = [(js ''__proto__'', [js ''a'']), (js ''Tid'', [js ''2023'', js ''2024''])]"
    by (simp add: protoData_def sampleData_def)
  have g: "getTableData protoApi (js ''TAB4552'') None (language (validateLanguage None))
           = Inr protoData"
    and g': "getTableData protoApi (js ''TAB4552'') (previewSelection None)
           (language (validateLanguage None)) = Inr protoData"
    by (simp_all add: protoApi_def)
  have t: "transformToStructuredData protoApi protoData None = Inr ?sd"
    and t': "transformToStructuredData protoApi protoData (previewSelection None) = Inr ?sd"
    by (simp_all add: protoApi_def sampleApi_def)
  have n: "\<not> summaryThrows ?sd"
    by (simp add: summaryThrows_def js_eq_iff)
  have j: "selectionJson (effectiveSelection protoData)
           = JObj [(js ''Tid'', JArr [JStr (js ''2023''), JStr (js ''2024'')])]"
    by (simp add: effectiveSelection_proto selectionJson_def)
  show ?thesis
    using d effectiveSelectionOf_handleGetTableData [OF g t]
      effectiveSelectionOf_handlePreviewData [OF g' t' n]
    by (simp add: j)
qed


section \<open>Finding a region code\<close>






end
